theory Spec2Isabelle
  imports Main "HOL-Library.Word" "HOL-Library.Finite_Map"
begin

section \<open>Data model of document\_persistable.go\<close>

text \<open>
  The file implements the persistence methods of \<open>Base\<close>: \<open>IsPersisted\<close>, \<open>IsChanged\<close>,
  \<open>Changes\<close>, \<open>Save\<close>, \<open>saveByUpdate\<close>, \<open>saveByInsert\<close> and
  \<open>getMongoDriverCollectionRef\<close>. The struct \<open>Base\<close>, the codec \<open>ToBson\<close>, the diff
  \<open>makeBsonDocumentDiff\<close>, the accessor \<open>SetField\<close>, the model descriptor and the store
  driver live in other files; they enter the embedding as parameters (record \<open>collab\<close>).
\<close>

text \<open>
  An ObjectID is a 12-byte array. \<open>ZeroObjectID()\<close> is not in this file; line 83 calls
  its result the "zero-value ObjectID", which for a Go array is the one with every byte 0.
\<close>

type_synonym ObjectID = "96 word"

definition ZeroObjectID :: ObjectID where
  "ZeroObjectID = 0"

text \<open>
  A \<open>BsonDocument\<close> is a Go map from string keys to \<open>interface{}\<close> values: finite, without
  order or duplicate keys. The dynamic type of a value is the constructor.
\<close>

datatype bson_value =
    VNull
  | VBool bool
  | VInt int
  | VString string
  | VObjectID ObjectID
  | VArray "bson_value list"
  | VDoc "(string, bson_value) fmap"

type_synonym BsonDocument = "(string, bson_value) fmap"

text \<open>Go's \<open>len\<close> on a map: the number of keys.\<close>

definition len :: "BsonDocument \<Rightarrow> nat" where
  "len m = fcard (fmdom m)"

datatype error = Err string

text \<open>
  The part of \<open>Base\<close> this file reads and writes: the \<open>persisted\<close> flag, the cached
  \<open>previousValue\<close>, and the live field values (\<open>fieldValues\<close>, of a type left open), which
  \<open>ToBson\<close> reads and \<open>SetField\<close> writes.
\<close>

record 'f Base =
  persisted :: bool
  previousValue :: BsonDocument
  fieldValues :: 'f

text \<open>
  The handle \<open>getMongoCollectionHandle\<close> gives for a database name and a collection name:
  the collection an operation is sent to.
\<close>

record Collection =
  dbName :: string
  collectionName :: string

text \<open>A \<open>time.Duration\<close> counts nanoseconds.\<close>

definition Second :: int where
  "Second = 1000000000"

text \<open>
  The collaborators of this file, defined elsewhere in the repository or in the driver.
  \<open>ToBson\<close> encodes the live field values; \<open>SetField\<close> returns the field values it leaves
  behind together with its error (\<open>None\<close> is Go's \<open>nil\<close>); \<open>InsertOne\<close> gets the collection
  handle, the timeout of its context and the document, and answers with an error or with
  the \<open>InsertedID\<close>.
\<close>

record 'f collab =
  ToBson :: "'f \<Rightarrow> BsonDocument"
  makeBsonDocumentDiff :: "BsonDocument \<Rightarrow> BsonDocument \<Rightarrow> BsonDocument"
  SetField :: "string \<Rightarrow> bson_value \<Rightarrow> 'f \<Rightarrow> 'f \<times> error option"
  GetDatabaseName :: string
  GetCollectionName :: string
  InsertOne :: "Collection \<Rightarrow> int \<Rightarrow> BsonDocument \<Rightarrow> error + bson_value"

text \<open>
  What a call does besides changing the record: the contexts it creates and cancels and
  the operations it sends to the store, in order.
\<close>

datatype event =
    WithTimeout int
  | Cancel
  | StoreInsertOne Collection BsonDocument
  | StoreUpdateOne Collection BsonDocument BsonDocument

text \<open>
  Modelled from the spec: the package \<open>mongoid/log\<close> is not in this file. The spec calls
  what the stubs do a "crash/fatal" that ends the process: \<open>log.Fatal\<close> writes its argument
  to the log and exits, \<open>log.Panic\<close> writes it and panics; neither returns to its caller.
  \<open>log.Debug\<close> and \<open>log.Error\<close> only write to the log and are left out.

  So a call of \<open>Save\<close> ends in one of three ways: it returns its \<open>error\<close> result
  (\<open>None\<close> is \<open>nil\<close>), or \<open>log.Fatal\<close> ends the process, or \<open>log.Panic\<close> panics.
\<close>

datatype log_arg = ArgString string | ArgError error

datatype outcome =
    Returned "error option"
  | Fatal log_arg
  | Panicked error

record 'f run =
  outcome :: outcome
  state :: "'f Base"
  events :: "event list"

section \<open>The change tracker\<close>

definition IsPersisted :: "'f Base \<Rightarrow> bool" where
  "IsPersisted d = persisted d"

text \<open>
  \<open>Changes\<close> has a pointer receiver; the model returns the record next to the diff, so
  that what the call leaves of the record is part of its result.
\<close>

definition Changes :: "'f collab \<Rightarrow> 'f Base \<Rightarrow> BsonDocument \<times> 'f Base" where
  "Changes c d =
     (let currentBson = ToBson c (fieldValues d);
          previousBson = previousValue d;
          diffBson = makeBsonDocumentDiff c previousBson currentBson
      in (diffBson, d))"

definition IsChanged :: "'f collab \<Rightarrow> 'f Base \<Rightarrow> bool" where
  "IsChanged c d = (if len (fst (Changes c d)) > 0 then True else False)"

text \<open>
  Modelled from the spec: \<open>refreshPreviousValueBSON\<close> is not in this file; the spec's
  \<open>refreshSnapshot()\<close> "recomputes previous snapshot = encode(current fields)".
\<close>

definition refreshPreviousValueBSON :: "'f collab \<Rightarrow> 'f Base \<Rightarrow> 'f Base" where
  "refreshPreviousValueBSON c d = d\<lparr>previousValue := ToBson c (fieldValues d)\<rparr>"

section \<open>The persistence coordinator\<close>

definition getMongoDriverCollectionRef :: "'f collab \<Rightarrow> 'f Base \<Rightarrow> Collection" where
  "getMongoDriverCollectionRef c d =
     (let dbName = GetDatabaseName c;
          collectionName = GetCollectionName c
      in \<lparr>dbName = dbName, collectionName = collectionName\<rparr>)"

definition saveByUpdate :: "'f collab \<Rightarrow> 'f Base \<Rightarrow> 'f run" where
  "saveByUpdate c d =
     \<lparr>outcome = Fatal (ArgString ''NYI Save() - PERSISTED''), state = d, events = []\<rparr>"

text \<open>
  Lines 80 to 92 of \<open>saveByInsert\<close>: the document to insert is the encoding of the record,
  without its root \<open>_id\<close> entry when that entry is an ObjectID equal to the zero ObjectID.
\<close>

definition insertBson :: "'f collab \<Rightarrow> 'f Base \<Rightarrow> BsonDocument" where
  "insertBson c d =
     (let doc = ToBson c (fieldValues d)
      in case fmlookup doc ''_id'' of
           None \<Rightarrow> doc
         | Some idObjInterface \<Rightarrow>
             (case idObjInterface of
                VObjectID objectID \<Rightarrow>
                  if objectID = ZeroObjectID then fmdrop ''_id'' doc else doc
              | _ \<Rightarrow> doc))"

definition saveByInsert :: "'f collab \<Rightarrow> 'f Base \<Rightarrow> 'f run" where
  "saveByInsert c d =
     (let collection = getMongoDriverCollectionRef c d;
          ctx = 5 * Second;
          doc = insertBson c d;
          evs = [WithTimeout ctx, StoreInsertOne collection doc]
      in case InsertOne c collection ctx doc of
           Inl err \<Rightarrow> \<lparr>outcome = Fatal (ArgError err), state = d, events = evs\<rparr>
         | Inr insertedID \<Rightarrow>
             (case SetField c ''_id'' insertedID (fieldValues d) of
                (f', Some err) \<Rightarrow>
                  \<lparr>outcome = Panicked err, state = d\<lparr>fieldValues := f'\<rparr>, events = evs\<rparr>
              | (f', None) \<Rightarrow>
                  \<lparr>outcome = Returned None,
                   state = refreshPreviousValueBSON c (d\<lparr>fieldValues := f', persisted := True\<rparr>),
                   events = evs\<rparr>))"

definition Save :: "'f collab \<Rightarrow> 'f Base \<Rightarrow> 'f run" where
  "Save c d = (if IsPersisted d then saveByUpdate c d else saveByInsert c d)"

section \<open>Simulated collaborators\<close>

text \<open>
  Modelled from the spec: \<open>makeBsonDocumentDiff\<close> is not in this file. The spec's \<open>diff()\<close>:
  for every field path present in either snapshot, a path whose values differ (also a path
  present on one side only) gets an entry with the new-side value, or a null entry if the
  new side lacks the path; a path unset on both sides, as absence or as explicit null, is
  never emitted. This one compares the root entries.
\<close>

definition unset :: "bson_value option \<Rightarrow> bool" where
  "unset v = (v = None \<or> v = Some VNull)"

definition differs :: "BsonDocument \<Rightarrow> BsonDocument \<Rightarrow> string \<Rightarrow> bool" where
  "differs prev cur k =
     (fmlookup prev k \<noteq> fmlookup cur k \<and> (if unset (fmlookup prev k) then \<not> unset (fmlookup cur k) else True))"

definition specDiff :: "BsonDocument \<Rightarrow> BsonDocument \<Rightarrow> BsonDocument" where
  "specDiff prev cur =
     fmadd (fmmap (\<lambda>_. VNull) (fmfilter (\<lambda>k. differs prev cur k \<and> fmlookup cur k = None) prev))
           (fmfilter (differs prev cur) cur)"

text \<open>
  A record type whose field values are stored as their own encoding, with an accessor
  that accepts every path (\<open>storeField\<close>) and one that rejects every path (\<open>rejectField\<close>).
\<close>

definition storeField :: "string \<Rightarrow> bson_value \<Rightarrow> BsonDocument \<Rightarrow> BsonDocument \<times> error option" where
  "storeField path v f = (fmupd path v f, None)"

definition rejectField :: "string \<Rightarrow> bson_value \<Rightarrow> BsonDocument \<Rightarrow> BsonDocument \<times> error option" where
  "rejectField path v f = (f, Some (Err ''field rejected''))"

text \<open>A store that answers every insert with \<open>resp\<close>.\<close>

definition simCollab ::
  "(string \<Rightarrow> bson_value \<Rightarrow> BsonDocument \<Rightarrow> BsonDocument \<times> error option) \<Rightarrow> error + bson_value
     \<Rightarrow> BsonDocument collab" where
  "simCollab setField resp =
     \<lparr>ToBson = (\<lambda>f. f), makeBsonDocumentDiff = specDiff, SetField = setField,
      GetDatabaseName = ''test'', GetCollectionName = ''people'',
      InsertOne = (\<lambda>collection ctx doc. resp)\<rparr>"

text \<open>
  A store that assigns every identity itself: it refuses a document that carries a root
  \<open>_id\<close> entry and answers every other insert with the ObjectID 9.
\<close>

definition assigningStore :: "Collection \<Rightarrow> int \<Rightarrow> BsonDocument \<Rightarrow> error + bson_value" where
  "assigningStore collection ctx doc =
     (if fmlookup doc ''_id'' = None then Inr (VObjectID 9) else Inl (Err ''_id given''))"

definition assigningCollab :: "BsonDocument collab" where
  "assigningCollab =
     \<lparr>ToBson = (\<lambda>f. f), makeBsonDocumentDiff = specDiff, SetField = storeField,
      GetDatabaseName = ''test'', GetCollectionName = ''people'',
      InsertOne = assigningStore\<rparr>"

text \<open>
  \<open>newRecord v\<close>: never saved, identifier \<open>v\<close>, \<open>name\<close> changed from its default to \<open>A\<close>.
  \<open>storedRecord\<close>: loaded from the store, \<open>name\<close> changed from \<open>A\<close> to \<open>B\<close>.
\<close>

definition newRecord :: "bson_value \<Rightarrow> BsonDocument Base" where
  "newRecord v =
     \<lparr>persisted = False,
      previousValue = fmupd ''_id'' v (fmupd ''name'' (VString []) fmempty),
      fieldValues = fmupd ''_id'' v (fmupd ''name'' (VString ''A'') fmempty)\<rparr>"

definition storedRecord :: "BsonDocument Base" where
  "storedRecord =
     \<lparr>persisted = True,
      previousValue = fmupd ''_id'' (VObjectID 7) (fmupd ''name'' (VString ''A'') fmempty),
      fieldValues = fmupd ''_id'' (VObjectID 7) (fmupd ''name'' (VString ''B'') fmempty)\<rparr>"


section \<open>Auxiliary facts\<close>

lemma len_pos_entries: "(0 < len m) = (\<exists>k v. fmlookup m k = Some v)"
proof -
  have "(0 < len m) = (fmdom m \<noteq> {||})"
    using fcard_0_eq [of "fmdom m"] by (auto simp add: len_def fcard_fempty)
  also have "\<dots> = (\<exists>k. k |\<in>| fmdom m)"
    by auto
  also have "\<dots> = (\<exists>k v. fmlookup m k = Some v)"
    by (simp add: fmlookup_dom_iff)
  finally show ?thesis .
qed

lemma len_fmempty: "len fmempty = 0"
  by (simp add: len_def)

lemma specDiff_same: "specDiff a a = fmempty"
  by (rule fmap_ext) (simp add: specDiff_def differs_def)

lemma saveByInsert_events:
  "events (saveByInsert c d) =
     [WithTimeout (5 * Second), StoreInsertOne (getMongoDriverCollectionRef c d) (insertBson c d)]"
  by (simp add: saveByInsert_def Let_def split: sum.split prod.split option.split)

lemma saveByInsert_outcome:
  "outcome (saveByInsert c d) =
     (case InsertOne c (getMongoDriverCollectionRef c d) (5 * Second) (insertBson c d) of
        Inl err \<Rightarrow> Fatal (ArgError err)
      | Inr x \<Rightarrow>
          (case snd (SetField c ''_id'' x (fieldValues d)) of
             Some err \<Rightarrow> Panicked err
           | None \<Rightarrow> Returned None))"
  by (simp add: saveByInsert_def Let_def split: sum.split prod.split option.split)

lemma saveByInsert_Inl:
  "InsertOne c (getMongoDriverCollectionRef c d) (5 * Second) (insertBson c d) = Inl err \<Longrightarrow>
   saveByInsert c d =
     \<lparr>outcome = Fatal (ArgError err), state = d,
      events = [WithTimeout (5 * Second),
                StoreInsertOne (getMongoDriverCollectionRef c d) (insertBson c d)]\<rparr>"
  by (simp add: saveByInsert_def Let_def)

lemma saveByInsert_Inr_Some:
  "InsertOne c (getMongoDriverCollectionRef c d) (5 * Second) (insertBson c d) = Inr x \<Longrightarrow>
   SetField c ''_id'' x (fieldValues d) = (f', Some err) \<Longrightarrow>
   saveByInsert c d =
     \<lparr>outcome = Panicked err, state = d\<lparr>fieldValues := f'\<rparr>,
      events = [WithTimeout (5 * Second),
                StoreInsertOne (getMongoDriverCollectionRef c d) (insertBson c d)]\<rparr>"
  by (simp add: saveByInsert_def Let_def)

lemma saveByInsert_Inr_None:
  "InsertOne c (getMongoDriverCollectionRef c d) (5 * Second) (insertBson c d) = Inr x \<Longrightarrow>
   SetField c ''_id'' x (fieldValues d) = (f', None) \<Longrightarrow>
   saveByInsert c d =
     \<lparr>outcome = Returned None,
      state = \<lparr>persisted = True, previousValue = ToBson c f', fieldValues = f'\<rparr>,
      events = [WithTimeout (5 * Second),
                StoreInsertOne (getMongoDriverCollectionRef c d) (insertBson c d)]\<rparr>"
  by (cases d) (simp add: saveByInsert_def Let_def refreshPreviousValueBSON_def)

lemma Save_unpersisted: "\<not> persisted d \<Longrightarrow> Save c d = saveByInsert c d"
  by (simp add: Save_def IsPersisted_def)

lemma Save_persisted: "persisted d \<Longrightarrow> Save c d = saveByUpdate c d"
  by (simp add: Save_def IsPersisted_def)

lemma insertBson_cases:
  "insertBson c d =
     (if fmlookup (ToBson c (fieldValues d)) ''_id'' = Some (VObjectID ZeroObjectID)
      then fmdrop ''_id'' (ToBson c (fieldValues d))
      else ToBson c (fieldValues d))"
  by (auto simp add: insertBson_def Let_def split: option.split bson_value.split)

text \<open>Facts about the simulated collaborators.\<close>

lemma simCollab_simps:
  "ToBson (simCollab sf r) = (\<lambda>f. f)"
  "makeBsonDocumentDiff (simCollab sf r) = specDiff"
  "SetField (simCollab sf r) = sf"
  "InsertOne (simCollab sf r) = (\<lambda>collection ctx doc. r)"
  "getMongoDriverCollectionRef (simCollab sf r) d = \<lparr>dbName = ''test'', collectionName = ''people''\<rparr>"
  by (simp_all add: simCollab_def getMongoDriverCollectionRef_def)

lemma assigningCollab_simps:
  "ToBson assigningCollab = (\<lambda>f. f)"
  "makeBsonDocumentDiff assigningCollab = specDiff"
  "SetField assigningCollab = storeField"
  "InsertOne assigningCollab = assigningStore"
  "getMongoDriverCollectionRef assigningCollab d = \<lparr>dbName = ''test'', collectionName = ''people''\<rparr>"
  by (simp_all add: assigningCollab_def getMongoDriverCollectionRef_def)

lemma newRecord_simps:
  "persisted (newRecord v) = False"
  "previousValue (newRecord v) = fmupd ''_id'' v (fmupd ''name'' (VString []) fmempty)"
  "fieldValues (newRecord v) = fmupd ''_id'' v (fmupd ''name'' (VString ''A'') fmempty)"
  by (simp_all add: newRecord_def)

lemma storedRecord_simps:
  "persisted storedRecord = True"
  "previousValue storedRecord = fmupd ''_id'' (VObjectID 7) (fmupd ''name'' (VString ''A'') fmempty)"
  "fieldValues storedRecord = fmupd ''_id'' (VObjectID 7) (fmupd ''name'' (VString ''B'') fmempty)"
  by (simp_all add: storedRecord_def)

lemma Changes_newRecord:
  "fst (Changes (simCollab sf r) (newRecord v)) = fmupd ''name'' (VString ''A'') fmempty"
  by (rule fmap_ext)
     (simp add: Changes_def simCollab_simps newRecord_simps specDiff_def differs_def unset_def)

lemma Changes_storedRecord:
  "fst (Changes (simCollab sf r) storedRecord) = fmupd ''name'' (VString ''B'') fmempty"
  by (rule fmap_ext)
     (simp add: Changes_def simCollab_simps storedRecord_simps specDiff_def differs_def unset_def)

lemma insertBson_newRecord_zero:
  "insertBson (simCollab sf r) (newRecord (VObjectID 0)) = fmupd ''name'' (VString ''A'') fmempty"
  by (rule fmap_ext) (simp add: insertBson_cases simCollab_simps newRecord_simps ZeroObjectID_def)

section \<open>Claims\<close>

text \<open>
  C8. Two consecutive calls of \<open>Changes\<close> with nothing between them return equal diff
  documents (the first call leaves the record as it was), and \<open>IsChanged\<close> is true if and
  only if the document \<open>Changes\<close> returns has at least one entry.
\<close>

theorem Changes_twice_same_and_IsChanged_iff:
  "snd (Changes c d) = d \<and>
   fst (Changes c (snd (Changes c d))) = fst (Changes c d) \<and>
   IsChanged c d = (\<exists>k v. fmlookup (fst (Changes c d)) k = Some v)"
proof -
  have unchanged: "snd (Changes c d) = d"
    by (simp add: Changes_def)
  have "IsChanged c d = (0 < len (fst (Changes c d)))"
    by (simp add: IsChanged_def)
  then have "IsChanged c d = (\<exists>k v. fmlookup (fst (Changes c d)) k = Some v)"
    by (simp only: len_pos_entries)
  with unchanged show ?thesis
    by simp
qed

text \<open>
  C9. On the insert path the document handed to the store is the encoding of the record
  without its root \<open>_id\<close> entry exactly when that entry is an ObjectID equal to the zero
  ObjectID; with a root \<open>_id\<close> of any other type or value, or none, the encoding is sent
  as it is, and every entry other than the root \<open>_id\<close>, with all that is nested in it, is
  sent as it is in both cases. The answer of the store to that very document decides how
  the call ends.
\<close>

theorem Save_insert_drops_only_root_zero_ObjectID:
  assumes "\<not> persisted d"
  shows "events (Save c d) =
           [WithTimeout (5 * Second),
            StoreInsertOne (getMongoDriverCollectionRef c d)
              (if fmlookup (ToBson c (fieldValues d)) ''_id'' = Some (VObjectID ZeroObjectID)
               then fmdrop ''_id'' (ToBson c (fieldValues d))
               else ToBson c (fieldValues d))] \<and>
         (\<forall>k. k = ''_id'' \<or>
              fmlookup (insertBson c d) k = fmlookup (ToBson c (fieldValues d)) k) \<and>
         outcome (Save c d) =
           (case InsertOne c (getMongoDriverCollectionRef c d) (5 * Second)
                   (if fmlookup (ToBson c (fieldValues d)) ''_id'' = Some (VObjectID ZeroObjectID)
                    then fmdrop ''_id'' (ToBson c (fieldValues d))
                    else ToBson c (fieldValues d)) of
              Inl err \<Rightarrow> Fatal (ArgError err)
            | Inr x \<Rightarrow>
                (case snd (SetField c ''_id'' x (fieldValues d)) of
                   Some err \<Rightarrow> Panicked err
                 | None \<Rightarrow> Returned None))"
proof -
  have run: "Save c d = saveByInsert c d"
    using assms by (rule Save_unpersisted)
  have sent: "events (Save c d) =
          [WithTimeout (5 * Second),
           StoreInsertOne (getMongoDriverCollectionRef c d) (insertBson c d)]"
    by (simp add: run saveByInsert_events)
  have others: "\<forall>k. k = ''_id'' \<or>
      fmlookup (insertBson c d) k = fmlookup (ToBson c (fieldValues d)) k"
    by (simp add: insertBson_cases)
  have answer: "outcome (Save c d) =
      (case InsertOne c (getMongoDriverCollectionRef c d) (5 * Second) (insertBson c d) of
         Inl err \<Rightarrow> Fatal (ArgError err)
       | Inr x \<Rightarrow>
           (case snd (SetField c ''_id'' x (fieldValues d)) of
              Some err \<Rightarrow> Panicked err
            | None \<Rightarrow> Returned None))"
    by (simp only: run saveByInsert_outcome)
  have doc: "insertBson c d =
      (if fmlookup (ToBson c (fieldValues d)) ''_id'' = Some (VObjectID ZeroObjectID)
       then fmdrop ''_id'' (ToBson c (fieldValues d))
       else ToBson c (fieldValues d))"
    by (rule insertBson_cases)
  from sent others answer show ?thesis
    unfolding doc by blast
qed

theorem Save_insert_drops_only_root_zero_ObjectID_witness:
  "\<not> persisted (newRecord (VObjectID 0)) \<and>
   events (Save assigningCollab (newRecord (VObjectID 0))) =
     [WithTimeout 5000000000,
      StoreInsertOne \<lparr>dbName = ''test'', collectionName = ''people''\<rparr>
        (fmdrop ''_id'' (fmupd ''_id'' (VObjectID 0) (fmupd ''name'' (VString ''A'') fmempty)))] \<and>
   outcome (Save assigningCollab (newRecord (VObjectID 0))) = Returned None \<and>
   \<not> persisted (newRecord (VObjectID 9)) \<and>
   events (Save assigningCollab (newRecord (VObjectID 9))) =
     [WithTimeout 5000000000,
      StoreInsertOne \<lparr>dbName = ''test'', collectionName = ''people''\<rparr>
        (fmupd ''_id'' (VObjectID 9) (fmupd ''name'' (VString ''A'') fmempty))] \<and>
   outcome (Save assigningCollab (newRecord (VObjectID 9))) = Fatal (ArgError (Err ''_id given'')) \<and>
   \<not> persisted (newRecord (VDoc (fmupd ''_id'' (VObjectID 0) fmempty))) \<and>
   events (Save assigningCollab (newRecord (VDoc (fmupd ''_id'' (VObjectID 0) fmempty)))) =
     [WithTimeout 5000000000,
      StoreInsertOne \<lparr>dbName = ''test'', collectionName = ''people''\<rparr>
        (fmupd ''_id'' (VDoc (fmupd ''_id'' (VObjectID 0) fmempty))
           (fmupd ''name'' (VString ''A'') fmempty))] \<and>
   outcome (Save assigningCollab (newRecord (VDoc (fmupd ''_id'' (VObjectID 0) fmempty))))
     = Fatal (ArgError (Err ''_id given''))"
proof -
  have zero: "\<not> persisted (newRecord (VObjectID 0))"
    and nine: "\<not> persisted (newRecord (VObjectID 9))"
    and nested: "\<not> persisted (newRecord (VDoc (fmupd ''_id'' (VObjectID 0) fmempty)))"
    by (simp_all add: newRecord_simps)
  show ?thesis
    using Save_insert_drops_only_root_zero_ObjectID [OF zero, of assigningCollab]
          Save_insert_drops_only_root_zero_ObjectID [OF nine, of assigningCollab]
          Save_insert_drops_only_root_zero_ObjectID [OF nested, of assigningCollab]
    by (simp add: assigningCollab_simps assigningStore_def storeField_def newRecord_simps
                  ZeroObjectID_def Second_def)
qed

text \<open>
  C3. When the encoding of an unsaved record has the zero ObjectID as its root \<open>_id\<close>,
  \<open>Save\<close> removes that entry before the insert: its only store operation is the INSERT of
  the encoding without \<open>_id\<close>, that document is the one \<open>InsertOne\<close> is called with, and the
  answer of the store to it decides how the call ends.
\<close>

theorem Save_insert_removes_zero_identifier:
  assumes "\<not> persisted d"
    and "fmlookup (ToBson c (fieldValues d)) ''_id'' = Some (VObjectID ZeroObjectID)"
  shows "events (Save c d) =
           [WithTimeout (5 * Second),
            StoreInsertOne (getMongoDriverCollectionRef c d)
              (fmdrop ''_id'' (ToBson c (fieldValues d)))] \<and>
         insertBson c d = fmdrop ''_id'' (ToBson c (fieldValues d)) \<and>
         fmlookup (insertBson c d) ''_id'' = None \<and>
         outcome (Save c d) =
           (case InsertOne c (getMongoDriverCollectionRef c d) (5 * Second)
                   (fmdrop ''_id'' (ToBson c (fieldValues d))) of
              Inl err \<Rightarrow> Fatal (ArgError err)
            | Inr x \<Rightarrow>
                (case snd (SetField c ''_id'' x (fieldValues d)) of
                   Some err \<Rightarrow> Panicked err
                 | None \<Rightarrow> Returned None))"
proof -
  have run: "Save c d = saveByInsert c d"
    using assms(1) by (rule Save_unpersisted)
  have dropped: "insertBson c d = fmdrop ''_id'' (ToBson c (fieldValues d))"
    using assms(2) by (simp add: insertBson_cases)
  have sent: "events (Save c d) =
      [WithTimeout (5 * Second),
       StoreInsertOne (getMongoDriverCollectionRef c d)
         (fmdrop ''_id'' (ToBson c (fieldValues d)))]"
    by (simp add: run saveByInsert_events dropped)
  have absent: "fmlookup (insertBson c d) ''_id'' = None"
    by (simp add: dropped)
  have answer: "outcome (Save c d) =
      (case InsertOne c (getMongoDriverCollectionRef c d) (5 * Second)
              (fmdrop ''_id'' (ToBson c (fieldValues d))) of
         Inl err \<Rightarrow> Fatal (ArgError err)
       | Inr x \<Rightarrow>
           (case snd (SetField c ''_id'' x (fieldValues d)) of
              Some err \<Rightarrow> Panicked err
            | None \<Rightarrow> Returned None))"
    by (simp only: run saveByInsert_outcome dropped)
  from sent dropped absent answer show ?thesis
    by blast
qed

theorem Save_insert_removes_zero_identifier_witness:
  "\<not> persisted (newRecord (VObjectID 0)) \<and>
   fmlookup (ToBson assigningCollab (fieldValues (newRecord (VObjectID 0)))) ''_id''
     = Some (VObjectID ZeroObjectID) \<and>
   events (Save assigningCollab (newRecord (VObjectID 0))) =
     [WithTimeout 5000000000,
      StoreInsertOne \<lparr>dbName = ''test'', collectionName = ''people''\<rparr>
        (fmdrop ''_id'' (fmupd ''_id'' (VObjectID 0) (fmupd ''name'' (VString ''A'') fmempty)))] \<and>
   fmlookup (insertBson assigningCollab (newRecord (VObjectID 0))) ''_id'' = None \<and>
   assigningStore \<lparr>dbName = ''test'', collectionName = ''people''\<rparr> 5000000000
     (fmupd ''_id'' (VObjectID 0) (fmupd ''name'' (VString ''A'') fmempty))
     = Inl (Err ''_id given'') \<and>
   outcome (Save assigningCollab (newRecord (VObjectID 0))) = Returned None"
proof -
  have unsaved: "\<not> persisted (newRecord (VObjectID 0))"
    by (simp add: newRecord_simps)
  have zero: "fmlookup (ToBson assigningCollab (fieldValues (newRecord (VObjectID 0)))) ''_id''
      = Some (VObjectID ZeroObjectID)"
    by (simp add: assigningCollab_simps newRecord_simps ZeroObjectID_def)
  have refused: "assigningStore \<lparr>dbName = ''test'', collectionName = ''people''\<rparr> 5000000000
      (fmupd ''_id'' (VObjectID 0) (fmupd ''name'' (VString ''A'') fmempty))
      = Inl (Err ''_id given'')"
    by (simp add: assigningStore_def)
  show ?thesis
    using unsaved zero refused Save_insert_removes_zero_identifier [OF unsaved zero]
    by (simp add: assigningCollab_simps assigningStore_def storeField_def newRecord_simps
                  Second_def)
qed

text \<open>
  C2, as the code has it. When the store accepts the insert of an unsaved record and
  answers with the identity \<open>x\<close>, and \<open>SetField\<close> accepts \<open>x\<close> for \<open>_id\<close>, \<open>Save\<close> returns nil, the record has
  the field values \<open>SetField\<close> left, \<open>persisted\<close> is true and the cached previous snapshot is
  the encoding of those field values. So \<open>IsPersisted\<close> is true afterwards, and \<open>IsChanged\<close>
  is false, given that the diff of that encoding with itself has no entry.
\<close>

theorem Save_insert_success:
  assumes "\<not> persisted d"
    and "InsertOne c (getMongoDriverCollectionRef c d) (5 * Second) (insertBson c d) = Inr x"
    and "SetField c ''_id'' x (fieldValues d) = (f', None)"
    and "makeBsonDocumentDiff c (ToBson c f') (ToBson c f') = fmempty"
  shows "outcome (Save c d) = Returned None \<and>
         state (Save c d) = \<lparr>persisted = True, previousValue = ToBson c f', fieldValues = f'\<rparr> \<and>
         IsPersisted (state (Save c d)) \<and>
         \<not> IsChanged c (state (Save c d))"
proof -
  have run: "Save c d =
      \<lparr>outcome = Returned None,
       state = \<lparr>persisted = True, previousValue = ToBson c f', fieldValues = f'\<rparr>,
       events = [WithTimeout (5 * Second),
                 StoreInsertOne (getMongoDriverCollectionRef c d) (insertBson c d)]\<rparr>"
    using assms(1) saveByInsert_Inr_None [OF assms(2) assms(3)]
    by (simp add: Save_unpersisted)
  have "fst (Changes c \<lparr>persisted = True, previousValue = ToBson c f', fieldValues = f'\<rparr>)
          = fmempty"
    using assms(4) by (simp add: Changes_def)
  then have "\<not> IsChanged c \<lparr>persisted = True, previousValue = ToBson c f', fieldValues = f'\<rparr>"
    by (simp add: IsChanged_def len_fmempty)
  with run show ?thesis
    by (simp add: IsPersisted_def)
qed

theorem Save_insert_success_witness:
  "\<not> persisted (newRecord (VObjectID 0)) \<and>
   outcome (Save (simCollab storeField (Inr (VObjectID 9))) (newRecord (VObjectID 0)))
     = Returned None \<and>
   fmlookup (fieldValues (state (Save (simCollab storeField (Inr (VObjectID 9)))
     (newRecord (VObjectID 0))))) ''_id'' = Some (VObjectID 9) \<and>
   IsPersisted (state (Save (simCollab storeField (Inr (VObjectID 9))) (newRecord (VObjectID 0)))) \<and>
   \<not> IsChanged (simCollab storeField (Inr (VObjectID 9)))
       (state (Save (simCollab storeField (Inr (VObjectID 9))) (newRecord (VObjectID 0))))"
proof -
  let ?c = "simCollab storeField (Inr (VObjectID 9))"
  let ?d = "newRecord (VObjectID 0)"
  let ?f = "fmupd ''_id'' (VObjectID 9) (fieldValues ?d)"
  have unsaved: "\<not> persisted ?d"
    by (simp add: newRecord_simps)
  have accepted: "InsertOne ?c (getMongoDriverCollectionRef ?c ?d) (5 * Second) (insertBson ?c ?d)
      = Inr (VObjectID 9)"
    by (simp add: simCollab_simps)
  have written: "SetField ?c ''_id'' (VObjectID 9) (fieldValues ?d) = (?f, None)"
    by (simp add: simCollab_simps storeField_def)
  have same: "makeBsonDocumentDiff ?c (ToBson ?c ?f) (ToBson ?c ?f) = fmempty"
    by (simp add: simCollab_simps specDiff_same)
  show ?thesis
    using unsaved Save_insert_success [OF unsaved accepted written same]
    by auto
qed


text \<open>
  The claim C2 as written, with the success of the store insert as its only condition,
  fails: with a store that assigns identity 9 and an accessor that rejects the write, the
  identifier of a new record is still the zero ObjectID after \<open>Save\<close>, \<open>IsPersisted\<close> is
  false and \<open>IsChanged\<close> is true.
\<close>

theorem Save_insert_success_counterexample:
  "\<not> persisted (newRecord (VObjectID 0)) \<and>
   InsertOne (simCollab rejectField (Inr (VObjectID 9)))
     (getMongoDriverCollectionRef (simCollab rejectField (Inr (VObjectID 9)))
        (newRecord (VObjectID 0)))
     (5 * Second)
     (insertBson (simCollab rejectField (Inr (VObjectID 9))) (newRecord (VObjectID 0)))
     = Inr (VObjectID 9) \<and>
   fmlookup (fieldValues (state (Save (simCollab rejectField (Inr (VObjectID 9)))
     (newRecord (VObjectID 0))))) ''_id'' = Some (VObjectID 0) \<and>
   \<not> IsPersisted (state (Save (simCollab rejectField (Inr (VObjectID 9)))
     (newRecord (VObjectID 0)))) \<and>
   IsChanged (simCollab rejectField (Inr (VObjectID 9)))
     (state (Save (simCollab rejectField (Inr (VObjectID 9))) (newRecord (VObjectID 0))))"
proof -
  let ?c = "simCollab rejectField (Inr (VObjectID 9))"
  let ?d = "newRecord (VObjectID 0)"
  have accepted: "InsertOne ?c (getMongoDriverCollectionRef ?c ?d) (5 * Second) (insertBson ?c ?d)
      = Inr (VObjectID 9)"
    by (simp add: simCollab_simps)
  have rejected: "SetField ?c ''_id'' (VObjectID 9) (fieldValues ?d)
      = (fieldValues ?d, Some (Err ''field rejected''))"
    by (simp add: simCollab_simps rejectField_def)
  have "Save ?c ?d = saveByInsert ?c ?d"
    by (simp add: Save_unpersisted newRecord_simps)
  then have left: "state (Save ?c ?d) = ?d"
    by (simp add: saveByInsert_Inr_Some [OF accepted rejected])
  have "fmlookup (fst (Changes ?c ?d)) ''name'' = Some (VString ''A'')"
    by (simp add: Changes_newRecord)
  then have "\<exists>k v. fmlookup (fst (Changes ?c ?d)) k = Some v"
    by blast
  then have changed: "IsChanged ?c ?d"
    by (simp only: IsChanged_def len_pos_entries if_True)
  from accepted left changed show ?thesis
    by (simp add: IsPersisted_def newRecord_simps)
qed

text \<open>
  C6. \<open>Save\<close> does what \<open>saveByUpdate\<close> does when \<open>persisted\<close> is true and what
  \<open>saveByInsert\<close> does when it is false, whatever else the record holds; and whenever no
  store operation has succeeded (on the update path, which issues none, and on the insert
  path when \<open>InsertOne\<close> answers with no identity) the record is as it was before the call.
\<close>

theorem Save_dispatches_on_persisted:
  "Save c d = (if persisted d then saveByUpdate c d else saveByInsert c d) \<and>
   (persisted d \<or>
    (\<forall>x. InsertOne c (getMongoDriverCollectionRef c d) (5 * Second) (insertBson c d) \<noteq> Inr x)
      \<longrightarrow> state (Save c d) = d)"
proof -
  have dispatch: "Save c d = (if persisted d then saveByUpdate c d else saveByInsert c d)"
    by (simp add: Save_def IsPersisted_def)
  have update: "state (saveByUpdate c d) = d"
    by (simp add: saveByUpdate_def)
  have insert: "state (saveByInsert c d) = d"
    if "\<forall>x. InsertOne c (getMongoDriverCollectionRef c d) (5 * Second) (insertBson c d) \<noteq> Inr x"
  proof (cases "InsertOne c (getMongoDriverCollectionRef c d) (5 * Second) (insertBson c d)")
    case (Inl err)
    then show ?thesis
      by (simp add: saveByInsert_Inl)
  next
    case (Inr x)
    with that show ?thesis
      by simp
  qed
  from dispatch update insert show ?thesis
    by auto
qed

theorem Save_dispatches_on_persisted_witness:
  "persisted storedRecord \<and>
   Save (simCollab storeField (Inl (Err ''timeout''))) storedRecord
     = saveByUpdate (simCollab storeField (Inl (Err ''timeout''))) storedRecord \<and>
   state (Save (simCollab storeField (Inl (Err ''timeout''))) storedRecord) = storedRecord \<and>
   \<not> persisted (newRecord (VObjectID 0)) \<and>
   InsertOne (simCollab storeField (Inl (Err ''timeout'')))
     (getMongoDriverCollectionRef (simCollab storeField (Inl (Err ''timeout'')))
        (newRecord (VObjectID 0)))
     (5 * Second)
     (insertBson (simCollab storeField (Inl (Err ''timeout''))) (newRecord (VObjectID 0)))
     = Inl (Err ''timeout'') \<and>
   Save (simCollab storeField (Inl (Err ''timeout''))) (newRecord (VObjectID 0))
     = saveByInsert (simCollab storeField (Inl (Err ''timeout''))) (newRecord (VObjectID 0)) \<and>
   state (Save (simCollab storeField (Inl (Err ''timeout''))) (newRecord (VObjectID 0)))
     = newRecord (VObjectID 0)"
proof -
  let ?c = "simCollab storeField (Inl (Err ''timeout''))"
  have saved: "persisted storedRecord"
    by (simp add: storedRecord_simps)
  have unsaved: "\<not> persisted (newRecord (VObjectID 0))"
    by (simp add: newRecord_simps)
  have failed: "InsertOne ?c (getMongoDriverCollectionRef ?c (newRecord (VObjectID 0)))
      (5 * Second) (insertBson ?c (newRecord (VObjectID 0))) = Inl (Err ''timeout'')"
    by (simp add: simCollab_simps)
  show ?thesis
    using saved unsaved failed
      Save_dispatches_on_persisted [of ?c storedRecord]
      Save_dispatches_on_persisted [of ?c "newRecord (VObjectID 0)"]
    by auto
qed

text \<open>
  C10. \<open>Save\<close> on an unsaved record never returns a non-nil error: when \<open>InsertOne\<close> fails
  the call ends in \<open>log.Fatal\<close>, when \<open>SetField\<close> fails it ends in \<open>log.Panic\<close>, and the
  only value it returns is nil.
\<close>

theorem Save_insert_returns_only_nil:
  assumes "\<not> persisted d"
  shows "(\<forall>err. outcome (Save c d) \<noteq> Returned (Some err)) \<and>
         outcome (Save c d) =
           (case InsertOne c (getMongoDriverCollectionRef c d) (5 * Second) (insertBson c d) of
              Inl err \<Rightarrow> Fatal (ArgError err)
            | Inr x \<Rightarrow>
                (case snd (SetField c ''_id'' x (fieldValues d)) of
                   Some err \<Rightarrow> Panicked err
                 | None \<Rightarrow> Returned None))"
proof -
  have "outcome (saveByInsert c d) =
      (case InsertOne c (getMongoDriverCollectionRef c d) (5 * Second) (insertBson c d) of
         Inl err \<Rightarrow> Fatal (ArgError err)
       | Inr x \<Rightarrow>
           (case snd (SetField c ''_id'' x (fieldValues d)) of
              Some err \<Rightarrow> Panicked err
            | None \<Rightarrow> Returned None))"
    by (simp add: saveByInsert_def Let_def split: sum.split prod.split option.split)
  with assms have run: "outcome (Save c d) =
      (case InsertOne c (getMongoDriverCollectionRef c d) (5 * Second) (insertBson c d) of
         Inl err \<Rightarrow> Fatal (ArgError err)
       | Inr x \<Rightarrow>
           (case snd (SetField c ''_id'' x (fieldValues d)) of
              Some err \<Rightarrow> Panicked err
            | None \<Rightarrow> Returned None))"
    by (simp add: Save_unpersisted)
  then have "\<forall>err. outcome (Save c d) \<noteq> Returned (Some err)"
    by (simp split: sum.split option.split)
  with run show ?thesis
    by simp
qed

theorem Save_insert_returns_only_nil_witness:
  "\<not> persisted (newRecord (VObjectID 0)) \<and>
   outcome (Save (simCollab storeField (Inl (Err ''timeout''))) (newRecord (VObjectID 0)))
     = Fatal (ArgError (Err ''timeout'')) \<and>
   outcome (Save (simCollab rejectField (Inr (VObjectID 9))) (newRecord (VObjectID 0)))
     = Panicked (Err ''field rejected'') \<and>
   outcome (Save (simCollab storeField (Inr (VObjectID 9))) (newRecord (VObjectID 0)))
     = Returned None"
proof -
  have unsaved: "\<not> persisted (newRecord (VObjectID 0))"
    by (simp add: newRecord_simps)
  show ?thesis
    using unsaved
      Save_insert_returns_only_nil [OF unsaved, of "simCollab storeField (Inl (Err ''timeout''))"]
      Save_insert_returns_only_nil [OF unsaved, of "simCollab rejectField (Inr (VObjectID 9))"]
      Save_insert_returns_only_nil [OF unsaved, of "simCollab storeField (Inr (VObjectID 9))"]
    by (simp add: simCollab_simps storeField_def rejectField_def)
qed

text \<open>
  C1, as the code has it. When the store insert of an unsaved record fails with an error,
  \<open>Save\<close> does not return: it hands the error to \<open>log.Fatal\<close>, which ends the process.
  Up to that point the record is untouched: \<open>persisted\<close> is still false, the cached previous
  snapshot is the same, and \<open>Changes\<close> gives the diff it gave before the call.
\<close>

theorem Save_insert_failure_is_fatal:
  assumes "\<not> persisted d"
    and "InsertOne c (getMongoDriverCollectionRef c d) (5 * Second) (insertBson c d) = Inl err"
  shows "outcome (Save c d) = Fatal (ArgError err) \<and>
         state (Save c d) = d \<and>
         \<not> IsPersisted (state (Save c d)) \<and>
         previousValue (state (Save c d)) = previousValue d \<and>
         fst (Changes c (state (Save c d))) = fst (Changes c d)"
proof -
  have "Save c d = saveByInsert c d"
    using assms(1) by (rule Save_unpersisted)
  then have "outcome (Save c d) = Fatal (ArgError err)" and same: "state (Save c d) = d"
    by (simp_all add: saveByInsert_Inl [OF assms(2)])
  moreover have "\<not> IsPersisted (state (Save c d))"
    using assms(1) same by (simp add: IsPersisted_def)
  ultimately show ?thesis
    by simp
qed

theorem Save_insert_failure_is_fatal_witness:
  "\<not> persisted (newRecord (VObjectID 0)) \<and>
   InsertOne (simCollab storeField (Inl (Err ''timeout'')))
     (getMongoDriverCollectionRef (simCollab storeField (Inl (Err ''timeout'')))
        (newRecord (VObjectID 0)))
     (5 * Second)
     (insertBson (simCollab storeField (Inl (Err ''timeout''))) (newRecord (VObjectID 0)))
     = Inl (Err ''timeout'') \<and>
   outcome (Save (simCollab storeField (Inl (Err ''timeout''))) (newRecord (VObjectID 0)))
     = Fatal (ArgError (Err ''timeout'')) \<and>
   state (Save (simCollab storeField (Inl (Err ''timeout''))) (newRecord (VObjectID 0)))
     = newRecord (VObjectID 0) \<and>
   fst (Changes (simCollab storeField (Inl (Err ''timeout'')))
         (state (Save (simCollab storeField (Inl (Err ''timeout''))) (newRecord (VObjectID 0)))))
     = fmupd ''name'' (VString ''A'') fmempty"
proof -
  let ?c = "simCollab storeField (Inl (Err ''timeout''))"
  let ?d = "newRecord (VObjectID 0)"
  have unsaved: "\<not> persisted ?d"
    by (simp add: newRecord_simps)
  have failed: "InsertOne ?c (getMongoDriverCollectionRef ?c ?d) (5 * Second) (insertBson ?c ?d)
      = Inl (Err ''timeout'')"
    by (simp add: simCollab_simps)
  show ?thesis
    using unsaved failed Save_insert_failure_is_fatal [OF unsaved failed]
    by (simp add: Changes_newRecord)
qed

text \<open>
  The claim C1 as written fails: with a store that answers the insert with the error
  \<open>timeout\<close>, \<open>Save\<close> on a new record does not return that error.
\<close>

theorem Save_insert_failure_counterexample:
  "\<not> persisted (newRecord (VObjectID 0)) \<and>
   InsertOne (simCollab storeField (Inl (Err ''timeout'')))
     (getMongoDriverCollectionRef (simCollab storeField (Inl (Err ''timeout'')))
        (newRecord (VObjectID 0)))
     (5 * Second)
     (insertBson (simCollab storeField (Inl (Err ''timeout''))) (newRecord (VObjectID 0)))
     = Inl (Err ''timeout'') \<and>
   outcome (Save (simCollab storeField (Inl (Err ''timeout''))) (newRecord (VObjectID 0)))
     \<noteq> Returned (Some (Err ''timeout''))"
proof -
  have "Save (simCollab storeField (Inl (Err ''timeout''))) (newRecord (VObjectID 0))
      = saveByInsert (simCollab storeField (Inl (Err ''timeout''))) (newRecord (VObjectID 0))"
    by (simp add: Save_unpersisted newRecord_simps)
  then show ?thesis
    by (simp add: saveByInsert_Inl simCollab_simps newRecord_simps)
qed

text \<open>
  C5, as the code has it. When the store accepts the insert of an unsaved record and
  \<open>SetField\<close> then fails to write the assigned identity, \<open>Save\<close> does not return: it panics
  with that error (\<open>log.Panic\<close>). The record is left with \<open>persisted\<close> false and the cached
  previous snapshot it had.
\<close>

theorem Save_writeback_failure_panics:
  assumes "\<not> persisted d"
    and "InsertOne c (getMongoDriverCollectionRef c d) (5 * Second) (insertBson c d) = Inr x"
    and "SetField c ''_id'' x (fieldValues d) = (f', Some err)"
  shows "outcome (Save c d) = Panicked err \<and>
         \<not> persisted (state (Save c d)) \<and>
         previousValue (state (Save c d)) = previousValue d"
proof -
  have "Save c d = saveByInsert c d"
    using assms(1) by (rule Save_unpersisted)
  then have "outcome (Save c d) = Panicked err"
    and "state (Save c d) = d\<lparr>fieldValues := f'\<rparr>"
    by (simp_all add: saveByInsert_Inr_Some [OF assms(2) assms(3)])
  with assms(1) show ?thesis
    by simp
qed

theorem Save_writeback_failure_panics_witness:
  "\<not> persisted (newRecord (VObjectID 0)) \<and>
   InsertOne (simCollab rejectField (Inr (VObjectID 9)))
     (getMongoDriverCollectionRef (simCollab rejectField (Inr (VObjectID 9)))
        (newRecord (VObjectID 0)))
     (5 * Second)
     (insertBson (simCollab rejectField (Inr (VObjectID 9))) (newRecord (VObjectID 0)))
     = Inr (VObjectID 9) \<and>
   SetField (simCollab rejectField (Inr (VObjectID 9))) ''_id'' (VObjectID 9)
     (fieldValues (newRecord (VObjectID 0)))
     = (fieldValues (newRecord (VObjectID 0)), Some (Err ''field rejected'')) \<and>
   outcome (Save (simCollab rejectField (Inr (VObjectID 9))) (newRecord (VObjectID 0)))
     = Panicked (Err ''field rejected'') \<and>
   \<not> persisted (state (Save (simCollab rejectField (Inr (VObjectID 9))) (newRecord (VObjectID 0))))"
proof -
  let ?c = "simCollab rejectField (Inr (VObjectID 9))"
  let ?d = "newRecord (VObjectID 0)"
  have unsaved: "\<not> persisted ?d"
    by (simp add: newRecord_simps)
  have accepted: "InsertOne ?c (getMongoDriverCollectionRef ?c ?d) (5 * Second) (insertBson ?c ?d)
      = Inr (VObjectID 9)"
    by (simp add: simCollab_simps)
  have rejected: "SetField ?c ''_id'' (VObjectID 9) (fieldValues ?d)
      = (fieldValues ?d, Some (Err ''field rejected''))"
    by (simp add: simCollab_simps rejectField_def)
  show ?thesis
    using unsaved accepted rejected Save_writeback_failure_panics [OF unsaved accepted rejected]
    by simp
qed

text \<open>
  The claim C5 as written fails: with a store that assigns identity 9 and an accessor that
  rejects the write, \<open>Save\<close> on a new record does not return the accessor's error.
\<close>

theorem Save_writeback_failure_counterexample:
  "\<not> persisted (newRecord (VObjectID 0)) \<and>
   InsertOne (simCollab rejectField (Inr (VObjectID 9)))
     (getMongoDriverCollectionRef (simCollab rejectField (Inr (VObjectID 9)))
        (newRecord (VObjectID 0)))
     (5 * Second)
     (insertBson (simCollab rejectField (Inr (VObjectID 9))) (newRecord (VObjectID 0)))
     = Inr (VObjectID 9) \<and>
   snd (SetField (simCollab rejectField (Inr (VObjectID 9))) ''_id'' (VObjectID 9)
     (fieldValues (newRecord (VObjectID 0)))) = Some (Err ''field rejected'') \<and>
   outcome (Save (simCollab rejectField (Inr (VObjectID 9))) (newRecord (VObjectID 0)))
     \<noteq> Returned (Some (Err ''field rejected''))"
proof -
  have "Save (simCollab rejectField (Inr (VObjectID 9))) (newRecord (VObjectID 0))
      = saveByInsert (simCollab rejectField (Inr (VObjectID 9))) (newRecord (VObjectID 0))"
    by (simp add: Save_unpersisted newRecord_simps)
  then show ?thesis
    by (simp add: saveByInsert_def Let_def simCollab_simps rejectField_def newRecord_simps)
qed

text \<open>
  C4, at a record loaded from the store whose \<open>name\<close> was changed from \<open>A\<close> to \<open>B\<close>: the
  diff has the entry for \<open>name\<close>, and \<open>Save\<close> ends the process in \<open>log.Fatal\<close> with the
  message of the unimplemented update path, without any operation sent to the store.
\<close>

theorem Save_update_is_fatal_stub:
  "persisted storedRecord \<and>
   fst (Changes (simCollab storeField (Inr (VObjectID 9))) storedRecord)
     = fmupd ''name'' (VString ''B'') fmempty \<and>
   Save (simCollab storeField (Inr (VObjectID 9))) storedRecord
     = \<lparr>outcome = Fatal (ArgString ''NYI Save() - PERSISTED''),
        state = storedRecord, events = []\<rparr>"
  by (simp add: Changes_storedRecord Save_persisted saveByUpdate_def storedRecord_simps)

text \<open>
  C7, at a new record whose insert the store accepts: \<open>Save\<close> creates the context with
  its timeout of five seconds, sends the INSERT and returns nil; the context's cancel
  function is never called.
\<close>

theorem Save_insert_never_cancels_context:
  "outcome (Save (simCollab storeField (Inr (VObjectID 9))) (newRecord (VObjectID 0)))
     = Returned None \<and>
   events (Save (simCollab storeField (Inr (VObjectID 9))) (newRecord (VObjectID 0)))
     = [WithTimeout 5000000000,
        StoreInsertOne \<lparr>dbName = ''test'', collectionName = ''people''\<rparr>
          (fmupd ''name'' (VString ''A'') fmempty)] \<and>
   Cancel \<notin> set (events (Save (simCollab storeField (Inr (VObjectID 9)))
                           (newRecord (VObjectID 0))))"
proof -
  have "Save (simCollab storeField (Inr (VObjectID 9))) (newRecord (VObjectID 0))
      = saveByInsert (simCollab storeField (Inr (VObjectID 9))) (newRecord (VObjectID 0))"
    by (simp add: Save_unpersisted newRecord_simps)
  moreover have "outcome (saveByInsert (simCollab storeField (Inr (VObjectID 9)))
      (newRecord (VObjectID 0))) = Returned None"
    by (simp add: saveByInsert_def Let_def simCollab_simps storeField_def)
  ultimately show ?thesis
    by (simp add: saveByInsert_events simCollab_simps insertBson_newRecord_zero Second_def)
qed

end
